theory Spec2Isabelle
  imports Complex_Main
begin

section \<open>Python strings\<close>

text \<open>
  A Python \<open>str\<close> is a sequence of Unicode code points; \<open>py\<close> embeds an ASCII literal.
  \<open>str.upper\<close> and the white-space test behind \<open>str.strip\<close> are tables of the Python
  runtime over all of Unicode (\<open>upper\<close> may even change the length, as for U+00DF). They
  are parameters of everything that reads the entry field, bundled as \<open>text_ops\<close>.
\<close>

type_synonym codepoint = nat

type_synonym str = "codepoint list"

definition py :: "string \<Rightarrow> str" where
  "py cs = map of_char cs"

record text_ops =
  upper :: "str \<Rightarrow> str"
  isspace :: "codepoint \<Rightarrow> bool"

text \<open>
  What the two tables are on ASCII: the letters a-z go to A-Z, every other ASCII
  character stays, and the white space is tab, line feed, vertical tab, form feed,
  carriage return, the separators 0x1C-0x1F and the blank. \<open>agrees_on_ascii\<close> says
  that a pair of tables is this on ASCII, as Python's is; the examples, all on ASCII
  text, are evaluated with \<open>ascii_ops\<close>.
\<close>

definition ascii_upper :: "str \<Rightarrow> str" where
  "ascii_upper s = map (\<lambda>c. if 97 \<le> c \<and> c \<le> 122 then c - 32 else c) s"

definition ascii_isspace :: "codepoint \<Rightarrow> bool" where
  "ascii_isspace c = ((9 \<le> c \<and> c \<le> 13) \<or> (28 \<le> c \<and> c \<le> 32))"

definition ascii_ops :: text_ops where
  "ascii_ops = \<lparr>upper = ascii_upper, isspace = ascii_isspace\<rparr>"



text \<open>\<open>s.strip()\<close>: leading and trailing white space removed.\<close>

definition strip :: "(codepoint \<Rightarrow> bool) \<Rightarrow> str \<Rightarrow> str" where
  "strip sp s = rev (dropWhile sp (rev (dropWhile sp s)))"

text \<open>\<open>s.split(sep)\<close> for a one-character separator: never an empty list.\<close>

fun split :: "codepoint \<Rightarrow> str \<Rightarrow> str list" where
  "split sep [] = [[]]"
| "split sep (c # cs) =
     (if c = sep then [] # split sep cs
      else (case split sep cs of
              [] \<Rightarrow> [[c]]
            | w # ws \<Rightarrow> (c # w) # ws))"

definition comma :: codepoint where
  "comma = 44"

text \<open>\<open>sep.join(xs)\<close>.\<close>

fun join :: "str \<Rightarrow> str list \<Rightarrow> str" where
  "join sep [] = []"
| "join sep [x] = x"
| "join sep (x # y # ys) = x @ sep @ join sep (y # ys)"

section \<open>Application state\<close>

text \<open>
  The state the operations read and write: the in-memory list \<open>MainWindow.watchlist\<close>,
  \<open>Auth.current_user\<close>, the two error labels, and the working directory. The directory
  holds \<open>users.json\<close> (a dictionary from username to a record with the one key
  \<open>password\<close>) and the watchlist files, kept by path; a path
  \<open>{username}_watchlist.json\<close> is never \<open>users.json\<close>. \<open>json.dump\<close> followed by
  \<open>json.load\<close> gives back the dictionary or the list of strings that was written.

  \<open>users.json\<close> is found or created at start-up and its writes succeed. A watchlist
  path is built from the username the user typed, and \<open>open(path, "w")\<close> raises for a
  path the directory does not accept (a username with a path separator names a
  directory that need not exist): \<open>can_open_w\<close> tells which paths open for writing.
  \<open>disk_writes\<close> logs the path of every file that was opened for writing, oldest first.
\<close>

datatype py_error = OSError

record user_record =
  password :: str

record app_state =
  watchlist :: "str list"
  current_user :: "str option"
  users_json :: "str \<rightharpoonup> user_record"
  watchlist_files :: "str \<rightharpoonup> str list"
  can_open_w :: "str \<Rightarrow> bool"
  disk_writes :: "str list"
  login_error_label :: str
  home_error_label :: str

text \<open>How an f-string renders a username that may be \<open>None\<close>.\<close>

definition format_username :: "str option \<Rightarrow> str" where
  "format_username username = (case username of None \<Rightarrow> py ''None'' | Some u \<Rightarrow> u)"

definition watchlist_path :: "str option \<Rightarrow> str" where
  "watchlist_path username = format_username username @ py ''_watchlist.json''"

section \<open>Credential store (auth.py)\<close>

definition load_users :: "app_state \<Rightarrow> (str \<rightharpoonup> user_record)" where
  "load_users s = users_json s"

definition save_users :: "(str \<rightharpoonup> user_record) \<Rightarrow> app_state \<Rightarrow> app_state" where
  "save_users users s =
     s\<lparr>users_json := users, disk_writes := disk_writes s @ [py ''users.json'']\<rparr>"

definition Auth_register :: "str \<Rightarrow> str \<Rightarrow> app_state \<Rightarrow> bool \<times> app_state" where
  "Auth_register username pw s =
     (let users = load_users s in
      if username \<in> dom users then (False, s)
      else (True, save_users (users(username \<mapsto> \<lparr>password = pw\<rparr>)) s))"

definition Auth_login :: "str \<Rightarrow> str \<Rightarrow> app_state \<Rightarrow> bool \<times> app_state" where
  "Auth_login username pw s =
     (let users = load_users s in
      case users username of
        Some r \<Rightarrow>
          if password r = pw then (True, s\<lparr>current_user := Some username\<rparr>)
          else (False, s)
      | None \<Rightarrow> (False, s))"

definition change_password :: "str \<Rightarrow> str \<Rightarrow> str \<Rightarrow> app_state \<Rightarrow> bool \<times> app_state" where
  "change_password username current_password new_password s =
     (let users = load_users s in
      case users username of
        Some r \<Rightarrow>
          if password r = current_password
          then (True, save_users (users(username \<mapsto> r\<lparr>password := new_password\<rparr>)) s)
          else (False, s)
      | None \<Rightarrow> (False, s))"

section \<open>Watchlist store (MainWindow, HomePage)\<close>

text \<open>
  \<open>load_watchlist\<close> reads the file when \<open>os.path.exists\<close> finds it and otherwise takes
  the empty list.
\<close>

definition load_watchlist :: "str option \<Rightarrow> app_state \<Rightarrow> app_state" where
  "load_watchlist username s =
     (case watchlist_files s (watchlist_path username) of
        Some content \<Rightarrow> s\<lparr>watchlist := content\<rparr>
      | None \<Rightarrow> s\<lparr>watchlist := []\<rparr>)"

text \<open>
  \<open>save_watchlist\<close> opens the file for writing and dumps the list. When \<open>open\<close>
  raises, nothing is stored and the exception leaves the method: the result is the
  exception, if any, and the state.
\<close>

definition save_watchlist :: "str option \<Rightarrow> app_state \<Rightarrow> py_error option \<times> app_state" where
  "save_watchlist username s =
     (let filepath = watchlist_path username in
      if can_open_w s filepath
      then (None, s\<lparr>watchlist_files := (watchlist_files s)(filepath \<mapsto> watchlist s),
                    disk_writes := disk_writes s @ [filepath]\<rparr>)
      else (Some OSError, s))"

text \<open>
  The first two lines of \<open>add_to_watchlist_from_entry\<close>: upper-case the text, split it at
  the commas, strip every piece and drop the pieces that are empty after stripping.
\<close>

definition parse_tickers :: "text_ops \<Rightarrow> str \<Rightarrow> str list" where
  "parse_tickers ops text =
     filter (\<lambda>t. t \<noteq> []) (map (strip (isspace ops)) (split comma (upper ops text)))"

text \<open>
  The parsed list in the words of the specification: the comma-separated entries, each
  trimmed and upper-cased, none dropped.
\<close>

definition spec_parsed_entries :: "text_ops \<Rightarrow> str \<Rightarrow> str list" where
  "spec_parsed_entries ops text =
     map (\<lambda>e. upper ops (strip (isspace ops) e)) (split comma text)"

text \<open>
  The \<open>for\<close> loop over the parsed tickers, carrying the watchlist and the local list
  \<open>invalid_tickers\<close>. The validity check is the call to the market-data provider; it is a
  parameter.
\<close>

fun add_loop :: "(str \<Rightarrow> bool) \<Rightarrow> str list \<Rightarrow> str list \<Rightarrow> str list
                 \<Rightarrow> str list \<times> str list" where
  "add_loop is_valid_ticker [] wl invalid_tickers = (wl, invalid_tickers)"
| "add_loop is_valid_ticker (t # ts) wl invalid_tickers =
     (if length t > 0 \<and> t \<notin> set wl \<and> length wl < 25 then
        (if is_valid_ticker t then add_loop is_valid_ticker ts (wl @ [t]) invalid_tickers
         else add_loop is_valid_ticker ts wl (invalid_tickers @ [t]))
      else add_loop is_valid_ticker ts wl invalid_tickers)"

text \<open>
  The watchlist and the label are set before \<open>save_watchlist\<close> is called, so they stay
  set when it raises.
\<close>

definition add_to_watchlist_from_entry ::
    "text_ops \<Rightarrow> (str \<Rightarrow> bool) \<Rightarrow> str \<Rightarrow> app_state \<Rightarrow> py_error option \<times> app_state" where
  "add_to_watchlist_from_entry ops is_valid_ticker text s =
     (let tickers = parse_tickers ops text in
      if length tickers > 5
      then (None, s\<lparr>home_error_label := py ''You can add up to 5 tickers at a time.''\<rparr>)
      else
        (case add_loop is_valid_ticker tickers (watchlist s) [] of
           (wl, invalid_tickers) \<Rightarrow>
             save_watchlist (current_user s)
               (s\<lparr>watchlist := wl,
                  home_error_label :=
                    (if invalid_tickers \<noteq> []
                     then py ''Invalid ticker(s): '' @ join (py '', '') invalid_tickers
                          @ py '', try again.''
                     else [])\<rparr>)))"

text \<open>\<open>list.remove\<close> deletes the first occurrence; the guard keeps it from raising.\<close>

definition remove_from_watchlist :: "str \<Rightarrow> app_state \<Rightarrow> py_error option \<times> app_state" where
  "remove_from_watchlist stock s =
     (if stock \<in> set (watchlist s)
      then save_watchlist (current_user s) (s\<lparr>watchlist := remove1 stock (watchlist s)\<rparr>)
      else (None, s))"

section \<open>Login page\<close>

definition LoginPage_login :: "str \<Rightarrow> str \<Rightarrow> app_state \<Rightarrow> app_state" where
  "LoginPage_login username pw s =
     (case Auth_login username pw s of
        (True, s1) \<Rightarrow>
          load_watchlist (Some username)
            (s1\<lparr>login_error_label := [], current_user := Some username\<rparr>)
      | (False, s1) \<Rightarrow> s1\<lparr>login_error_label := py ''Invalid username or password.''\<rparr>)"

definition LoginPage_register :: "str \<Rightarrow> str \<Rightarrow> app_state \<Rightarrow> app_state" where
  "LoginPage_register username pw s =
     (case Auth_register username pw s of
        (True, s1) \<Rightarrow> s1\<lparr>login_error_label := py ''Registration successful. Please login.''\<rparr>
      | (False, s1) \<Rightarrow> s1\<lparr>login_error_label := py ''Username already taken.''\<rparr>)"

text \<open>
  The state after \<open>MainWindow.__init__\<close> in a given directory: an empty watchlist, nobody
  logged in, and \<open>users.json\<close> created as the empty dictionary when it was absent.
\<close>

definition initial_state ::
    "(str \<rightharpoonup> user_record) option \<Rightarrow> (str \<rightharpoonup> str list) \<Rightarrow> (str \<Rightarrow> bool) \<Rightarrow> app_state" where
  "initial_state users_on_disk files opens =
     \<lparr>watchlist = [], current_user = None,
      users_json = (case users_on_disk of None \<Rightarrow> Map.empty | Some u \<Rightarrow> u),
      watchlist_files = files,
      can_open_w = opens,
      disk_writes = (case users_on_disk of None \<Rightarrow> [py ''users.json''] | Some u \<Rightarrow> []),
      login_error_label = [], home_error_label = []\<rparr>"

text \<open>
  Two directories for examples: one where every path opens, and one without
  subdirectories, where a path with a separator (or a NUL) does not.
\<close>

definition every_path :: "str \<Rightarrow> bool" where
  "every_path p = True"

definition no_subdirectories :: "str \<Rightarrow> bool" where
  "no_subdirectories p = (47 \<notin> set p \<and> 0 \<notin> set p)"

definition accept_all :: "str \<Rightarrow> bool" where
  "accept_all t = True"


definition fresh_state :: app_state where
  "fresh_state = initial_state None Map.empty every_path"

section \<open>Sequences of watchlist operations\<close>

text \<open>
  A user action on the home page: pressing "Add to Watchlist" with some text in the entry
  field (the provider answering as the predicate says at that moment), or pressing
  "Remove" for a stock. An exception that leaves a handler does not undo what the
  handler did before it; the next action starts from the state it left.
\<close>

datatype event = Add "str \<Rightarrow> bool" str | Remove str

fun apply_event :: "text_ops \<Rightarrow> app_state \<Rightarrow> event \<Rightarrow> app_state" where
  "apply_event ops s (Add is_valid_ticker text) =
     snd (add_to_watchlist_from_entry ops is_valid_ticker text s)"
| "apply_event ops s (Remove stock) = snd (remove_from_watchlist stock s)"

definition run_events :: "text_ops \<Rightarrow> event list \<Rightarrow> app_state \<Rightarrow> app_state" where
  "run_events ops evs s = foldl (apply_event ops) s evs"

definition watchlist_ok :: "str list \<Rightarrow> bool" where
  "watchlist_ok wl = (distinct wl \<and> length wl \<le> 25)"

text \<open>A store in which bob has registered with the password pw1.\<close>

definition bob_store :: app_state where
  "bob_store = snd (Auth_register (py ''bob'') (py ''pw1'') fresh_state)"

text \<open>
  A user whose name has a path separator, in a directory without subdirectories, holding
  one ticker in memory.
\<close>

definition subdir_user_state :: app_state where
  "subdir_user_state =
     (initial_state None Map.empty no_subdirectories)\<lparr>watchlist := [py ''AAPL'']\<rparr>"

section \<open>Floating-point values of the indicator series\<close>

text \<open>
  A cell of a pandas float series: a finite number, one of the two infinities, or NaN.
  Finite arithmetic is exact (rounding is not modelled); the special values follow
  IEEE 754, with a zero divisor taken as positive zero. Comparisons with NaN are false.
\<close>

datatype pyfloat = Num real | PInf | NInf | NaN

fun fl_neg :: "pyfloat \<Rightarrow> pyfloat" where
  "fl_neg (Num x) = Num (- x)"
| "fl_neg PInf = NInf"
| "fl_neg NInf = PInf"
| "fl_neg NaN = NaN"

fun fl_abs :: "pyfloat \<Rightarrow> pyfloat" where
  "fl_abs (Num x) = Num \<bar>x\<bar>"
| "fl_abs PInf = PInf"
| "fl_abs NInf = PInf"
| "fl_abs NaN = NaN"

fun fl_add :: "pyfloat \<Rightarrow> pyfloat \<Rightarrow> pyfloat" where
  "fl_add NaN b = NaN"
| "fl_add a NaN = NaN"
| "fl_add (Num x) (Num y) = Num (x + y)"
| "fl_add PInf NInf = NaN"
| "fl_add NInf PInf = NaN"
| "fl_add PInf b = PInf"
| "fl_add NInf b = NInf"
| "fl_add (Num x) b = b"

definition fl_sub :: "pyfloat \<Rightarrow> pyfloat \<Rightarrow> pyfloat" where
  "fl_sub a b = fl_add a (fl_neg b)"

fun fl_mul :: "pyfloat \<Rightarrow> pyfloat \<Rightarrow> pyfloat" where
  "fl_mul NaN b = NaN"
| "fl_mul a NaN = NaN"
| "fl_mul (Num x) (Num y) = Num (x * y)"
| "fl_mul (Num x) PInf = (if x = 0 then NaN else if x > 0 then PInf else NInf)"
| "fl_mul (Num x) NInf = (if x = 0 then NaN else if x > 0 then NInf else PInf)"
| "fl_mul PInf (Num y) = (if y = 0 then NaN else if y > 0 then PInf else NInf)"
| "fl_mul NInf (Num y) = (if y = 0 then NaN else if y > 0 then NInf else PInf)"
| "fl_mul PInf PInf = PInf"
| "fl_mul NInf NInf = PInf"
| "fl_mul PInf NInf = NInf"
| "fl_mul NInf PInf = NInf"

fun fl_div :: "pyfloat \<Rightarrow> pyfloat \<Rightarrow> pyfloat" where
  "fl_div NaN b = NaN"
| "fl_div a NaN = NaN"
| "fl_div (Num x) (Num y) =
     (if y = 0 then (if x = 0 then NaN else if x > 0 then PInf else NInf) else Num (x / y))"
| "fl_div (Num x) b = Num 0"
| "fl_div PInf (Num y) = (if y \<ge> 0 then PInf else NInf)"
| "fl_div NInf (Num y) = (if y \<ge> 0 then NInf else PInf)"
| "fl_div a b = NaN"

fun fl_less :: "pyfloat \<Rightarrow> pyfloat \<Rightarrow> bool" where
  "fl_less NaN b = False"
| "fl_less a NaN = False"
| "fl_less (Num x) (Num y) = (x < y)"
| "fl_less NInf NInf = False"
| "fl_less NInf b = True"
| "fl_less a NInf = False"
| "fl_less PInf b = False"
| "fl_less a PInf = True"


section \<open>Series operations of pandas\<close>

text \<open>\<open>Series.diff(1)\<close> and \<open>Series.shift()\<close> of a series of finite prices: the first cell is NaN.\<close>

definition diff :: "real list \<Rightarrow> pyfloat list" where
  "diff xs = map (\<lambda>i. if i = 0 then NaN else Num (xs ! i - xs ! (i - 1))) [0..<length xs]"

definition shift :: "real list \<Rightarrow> pyfloat list" where
  "shift xs = map (\<lambda>i. if i = 0 then NaN else Num (xs ! (i - 1))) [0..<length xs]"

text \<open>\<open>clip(lower=lo)\<close> and \<open>clip(upper=hi)\<close>: NaN stays NaN.\<close>

definition clip_lower :: "real \<Rightarrow> pyfloat \<Rightarrow> pyfloat" where
  "clip_lower lo x = (if fl_less x (Num lo) then Num lo else x)"

definition clip_upper :: "real \<Rightarrow> pyfloat \<Rightarrow> pyfloat" where
  "clip_upper hi x = (if fl_less (Num hi) x then Num hi else x)"

text \<open>The row-wise \<open>max(axis=1)\<close>, which skips NaN and is NaN only for a row of NaNs.\<close>

definition row_max :: "pyfloat list \<Rightarrow> pyfloat" where
  "row_max xs =
     foldl (\<lambda>m x. if m = NaN then x else if x = NaN then m else if fl_less m x then x else m)
       NaN xs"

text \<open>
  \<open>rolling(window, min_periods).mean()\<close>: infinities are turned into NaN first, the window
  of row \<open>i\<close> is the rows \<open>i - window + 1 .. i\<close> that exist, NaN cells are not counted,
  and the result is NaN unless at least \<open>min_periods\<close> cells, and at least one, are
  counted. Without \<open>min_periods\<close> pandas takes the window size for it.
\<close>

definition finite_values :: "pyfloat list \<Rightarrow> real list" where
  "finite_values xs =
     concat (map (\<lambda>x. case x of Num r \<Rightarrow> [r] | PInf \<Rightarrow> [] | NInf \<Rightarrow> [] | NaN \<Rightarrow> []) xs)"

definition window_mean :: "nat \<Rightarrow> pyfloat list \<Rightarrow> pyfloat" where
  "window_mean min_periods w =
     (let obs = finite_values w in
      if length obs \<ge> min_periods \<and> length obs > 0
      then Num (sum_list obs / real (length obs)) else NaN)"

definition rolling_mean :: "nat \<Rightarrow> nat \<Rightarrow> pyfloat list \<Rightarrow> pyfloat list" where
  "rolling_mean window min_periods xs =
     map (\<lambda>i. window_mean min_periods (drop (Suc i - window) (take (Suc i) xs)))
       [0..<length xs]"

text \<open>\<open>ewm(span, adjust=False).mean()\<close> of a series without NaN.\<close>

fun ewm_from :: "real \<Rightarrow> real \<Rightarrow> real list \<Rightarrow> real list" where
  "ewm_from alpha prev [] = []"
| "ewm_from alpha prev (x # xs) =
     ((1 - alpha) * prev + alpha * x) # ewm_from alpha ((1 - alpha) * prev + alpha * x) xs"

definition ewm_mean :: "nat \<Rightarrow> real list \<Rightarrow> pyfloat list" where
  "ewm_mean span_days xs =
     (case xs of
        [] \<Rightarrow> []
      | x # rest \<Rightarrow> map Num (x # ewm_from (2 / (real span_days + 1)) x rest))"

text \<open>\<open>replace([inf, -inf], nan)\<close> and \<open>fillna(v)\<close>.\<close>

definition replace_inf :: "pyfloat \<Rightarrow> pyfloat" where
  "replace_inf x = (if x = PInf \<or> x = NInf then NaN else x)"

definition fillna :: "real \<Rightarrow> pyfloat \<Rightarrow> pyfloat" where
  "fillna v x = (if x = NaN then Num v else x)"

section \<open>Indicators (StockDetailsPage)\<close>

text \<open>A row of the price table; the indicators read High, Low and Close.\<close>

record bar =
  Open :: real
  High :: real
  Low :: real
  Close :: real
  Volume :: nat

text \<open>The user-chosen SMA and EMA columns of \<open>plot_data\<close>; period 0 gives an empty column.\<close>

definition plot_data_sma :: "real list \<Rightarrow> nat \<Rightarrow> pyfloat list" where
  "plot_data_sma closes sma_period =
     (if sma_period > 0 then rolling_mean sma_period sma_period (map Num closes)
      else replicate (length closes) NaN)"

definition plot_data_ema :: "real list \<Rightarrow> nat \<Rightarrow> pyfloat list" where
  "plot_data_ema closes ema_period =
     (if ema_period > 0 then ewm_mean ema_period closes
      else replicate (length closes) NaN)"

text \<open>\<open>calculate_rsi\<close>, with its intermediate series named as in the source.\<close>

definition rsi_gain :: "real list \<Rightarrow> pyfloat list" where
  "rsi_gain series = map (\<lambda>d. if fl_less (Num 0) d then d else Num 0) (diff series)"

definition rsi_loss :: "real list \<Rightarrow> pyfloat list" where
  "rsi_loss series = map (\<lambda>d. fl_neg (if fl_less d (Num 0) then d else Num 0)) (diff series)"

definition rsi_avg_gain :: "real list \<Rightarrow> nat \<Rightarrow> pyfloat list" where
  "rsi_avg_gain series period = rolling_mean period period (rsi_gain series)"

definition rsi_avg_loss :: "real list \<Rightarrow> nat \<Rightarrow> pyfloat list" where
  "rsi_avg_loss series period = rolling_mean period period (rsi_loss series)"

definition rsi_rs :: "real list \<Rightarrow> nat \<Rightarrow> pyfloat list" where
  "rsi_rs series period =
     map (\<lambda>(g, l). fl_div g l) (zip (rsi_avg_gain series period) (rsi_avg_loss series period))"

definition calculate_rsi :: "real list \<Rightarrow> nat \<Rightarrow> pyfloat list" where
  "calculate_rsi series period =
     map (\<lambda>rs. fl_sub (Num 100) (fl_div (Num 100) (fl_add (Num 1) rs))) (rsi_rs series period)"

text \<open>
  \<open>calculate_adx\<close>. The three rolling means ask for \<open>min_periods=1\<close>, which pandas refuses
  with a ValueError when the window is 0; that is the result \<open>None\<close>.
\<close>

definition adx_tr :: "bar list \<Rightarrow> pyfloat list" where
  "adx_tr data =
     (let high = map High data; low = map Low data; close = map Close data;
          tr1 = map (\<lambda>(h, l). Num (h - l)) (zip high low);
          tr2 = map (\<lambda>(h, c). fl_abs (fl_sub (Num h) c)) (zip high (shift close));
          tr3 = map (\<lambda>(l, c). fl_abs (fl_sub (Num l) c)) (zip low (shift close))
      in map (\<lambda>i. row_max [tr1 ! i, tr2 ! i, tr3 ! i]) [0..<length data])"

definition adx_atr :: "bar list \<Rightarrow> nat \<Rightarrow> pyfloat list" where
  "adx_atr data period = rolling_mean period 1 (adx_tr data)"

definition adx_plus_dm :: "bar list \<Rightarrow> pyfloat list" where
  "adx_plus_dm data = map (clip_lower 0) (diff (map High data))"

definition adx_minus_dm :: "bar list \<Rightarrow> pyfloat list" where
  "adx_minus_dm data = map (\<lambda>d. fl_abs (clip_upper 0 d)) (diff (map Low data))"

definition adx_plus_di :: "bar list \<Rightarrow> nat \<Rightarrow> pyfloat list" where
  "adx_plus_di data period =
     map (\<lambda>(dm, atr). fl_div (fl_mul (Num 100) dm) atr)
       (zip (rolling_mean period 1 (adx_plus_dm data)) (adx_atr data period))"

definition adx_minus_di :: "bar list \<Rightarrow> nat \<Rightarrow> pyfloat list" where
  "adx_minus_di data period =
     map (\<lambda>(dm, atr). fl_div (fl_mul (Num 100) dm) atr)
       (zip (rolling_mean period 1 (adx_minus_dm data)) (adx_atr data period))"

definition adx_dx :: "bar list \<Rightarrow> nat \<Rightarrow> pyfloat list" where
  "adx_dx data period =
     map (\<lambda>(p, m). fl_mul (Num 100) (fl_abs (fl_div (fl_sub p m) (fl_add p m))))
       (zip (adx_plus_di data period) (adx_minus_di data period))"

definition calculate_adx ::
    "bar list \<Rightarrow> nat \<Rightarrow> (pyfloat list \<times> pyfloat list \<times> pyfloat list) option" where
  "calculate_adx data period =
     (if period < 1 then None
      else
        (let adx = rolling_mean period 1 (adx_dx data period);
             plus_di = adx_plus_di data period;
             minus_di = adx_minus_di data period
         in Some (map (\<lambda>x. fillna 0 (replace_inf x)) adx,
                  map (\<lambda>x. fillna 0 (replace_inf x)) plus_di,
                  map (\<lambda>x. fillna 0 (replace_inf x)) minus_di)))"

text \<open>One row of the last two lines of \<open>calculate_rsi\<close>, from the two averages.\<close>

definition rsi_cell :: "pyfloat \<Rightarrow> pyfloat \<Rightarrow> pyfloat" where
  "rsi_cell g l = fl_sub (Num 100) (fl_div (Num 100) (fl_add (Num 1) (fl_div g l)))"

text \<open>A cell that holds a finite number that is not negative.\<close>

definition nonneg_cell :: "pyfloat \<Rightarrow> bool" where
  "nonneg_cell x = (case x of Num r \<Rightarrow> 0 \<le> r | PInf \<Rightarrow> False | NInf \<Rightarrow> False | NaN \<Rightarrow> False)"




section \<open>Facts about the string operations\<close>










section \<open>Facts about the loop and the save\<close>






lemma save_keeps_memory:
  "watchlist (snd (save_watchlist u s)) = watchlist s
   \<and> home_error_label (snd (save_watchlist u s)) = home_error_label s
   \<and> can_open_w (snd (save_watchlist u s)) = can_open_w s"
  by (simp add: save_watchlist_def Let_def)

lemma add_state:
  assumes "length (parse_tickers ops text) \<le> 5"
  shows "add_to_watchlist_from_entry ops v text s =
           save_watchlist (current_user s)
             (s\<lparr>watchlist := fst (add_loop v (parse_tickers ops text) (watchlist s) []),
                home_error_label :=
                  (if snd (add_loop v (parse_tickers ops text) (watchlist s) []) \<noteq> []
                   then py ''Invalid ticker(s): ''
                        @ join (py '', '') (snd (add_loop v (parse_tickers ops text) (watchlist s) []))
                        @ py '', try again.''
                   else [])\<rparr>)"
  using assms
  by (cases "add_loop v (parse_tickers ops text) (watchlist s) []")
     (simp add: add_to_watchlist_from_entry_def)

lemma fresh_state_fields:
  "watchlist fresh_state = []" "current_user fresh_state = None"
  "watchlist_files fresh_state = Map.empty" "disk_writes fresh_state = [py ''users.json'']"
  "can_open_w fresh_state = every_path" "home_error_label fresh_state = []"
  by (simp_all add: fresh_state_def initial_state_def)

section \<open>Rejection of more than five tickers\<close>

text \<open>
  C1, as the code has it. The list the code counts is the parsed list with the pieces
  that are empty after stripping dropped. When that list has more than 5 entries,
  \<open>add_to_watchlist_from_entry\<close> only sets the error label to the "up to 5 tickers"
  message: nothing is raised, and the watchlist, every file and the log of writes are as
  before.
\<close>

theorem add_rejects_more_than_five:
  assumes "length (parse_tickers ops text) > 5"
  shows "add_to_watchlist_from_entry ops is_valid_ticker text s =
           (None, s\<lparr>home_error_label := py ''You can add up to 5 tickers at a time.''\<rparr>)
         \<and> watchlist (snd (add_to_watchlist_from_entry ops is_valid_ticker text s)) = watchlist s
         \<and> watchlist_files (snd (add_to_watchlist_from_entry ops is_valid_ticker text s))
             = watchlist_files s
         \<and> disk_writes (snd (add_to_watchlist_from_entry ops is_valid_ticker text s))
             = disk_writes s"
  using assms by (simp add: add_to_watchlist_from_entry_def)

lemma parse_six:
  "parse_tickers ascii_ops (py ''AAPL,MSFT,GOOG,AMZN,META,NFLX'')
     = [py ''AAPL'', py ''MSFT'', py ''GOOG'', py ''AMZN'', py ''META'', py ''NFLX'']"
  by (simp add: parse_tickers_def ascii_ops_def ascii_upper_def ascii_isspace_def strip_def
        comma_def py_def)

theorem add_rejects_more_than_five_witness:
  "length (parse_tickers ascii_ops (py ''AAPL,MSFT,GOOG,AMZN,META,NFLX'')) > 5
   \<and> fst (add_to_watchlist_from_entry ascii_ops accept_all
            (py ''AAPL,MSFT,GOOG,AMZN,META,NFLX'') fresh_state) = None
   \<and> watchlist (snd (add_to_watchlist_from_entry ascii_ops accept_all
            (py ''AAPL,MSFT,GOOG,AMZN,META,NFLX'') fresh_state)) = []
   \<and> disk_writes (snd (add_to_watchlist_from_entry ascii_ops accept_all
            (py ''AAPL,MSFT,GOOG,AMZN,META,NFLX'') fresh_state)) = [py ''users.json'']
   \<and> home_error_label (snd (add_to_watchlist_from_entry ascii_ops accept_all
            (py ''AAPL,MSFT,GOOG,AMZN,META,NFLX'') fresh_state))
       = py ''You can add up to 5 tickers at a time.''"
proof -
  have six: "length (parse_tickers ascii_ops (py ''AAPL,MSFT,GOOG,AMZN,META,NFLX'')) > 5"
    by (simp add: parse_six)
  from add_rejects_more_than_five [OF six, of accept_all fresh_state]
  show ?thesis using six by (simp add: fresh_state_def initial_state_def)
qed

text \<open>
  The entry text a,,,,,b has six comma-separated entries, four of them empty. The code
  counts two tickers, accepts the input, appends A and B and writes the watchlist file.
\<close>

lemma parse_blanks: "parse_tickers ascii_ops (py ''a,,,,,b'') = [py ''A'', py ''B'']"
  by (simp add: parse_tickers_def ascii_ops_def ascii_upper_def ascii_isspace_def strip_def
        comma_def py_def)

theorem add_accepts_six_entries_with_blanks:
  "length (spec_parsed_entries ascii_ops (py ''a,,,,,b'')) = 6
   \<and> fst (add_to_watchlist_from_entry ascii_ops accept_all (py ''a,,,,,b'') fresh_state) = None
   \<and> watchlist (snd (add_to_watchlist_from_entry ascii_ops accept_all (py ''a,,,,,b'')
        fresh_state)) = [py ''A'', py ''B'']
   \<and> home_error_label (snd (add_to_watchlist_from_entry ascii_ops accept_all (py ''a,,,,,b'')
        fresh_state)) = []
   \<and> disk_writes (snd (add_to_watchlist_from_entry ascii_ops accept_all (py ''a,,,,,b'')
        fresh_state)) = [py ''users.json'', py ''None_watchlist.json'']"
proof -
  have n: "length (spec_parsed_entries ascii_ops (py ''a,,,,,b'')) = 6"
    by (simp add: spec_parsed_entries_def comma_def py_def)
  have le: "length (parse_tickers ascii_ops (py ''a,,,,,b'')) \<le> 5"
    by (simp add: parse_blanks)
  have loop: "add_loop accept_all [py ''A'', py ''B''] [] [] = ([py ''A'', py ''B''], [])"
    by (simp add: accept_all_def py_def)
  have r: "add_to_watchlist_from_entry ascii_ops accept_all (py ''a,,,,,b'') fresh_state
        = save_watchlist None (fresh_state\<lparr>watchlist := [py ''A'', py ''B''],
                                            home_error_label := []\<rparr>)"
    unfolding add_state [OF le] parse_blanks
    by (simp add: loop fresh_state_fields del: add_loop.simps)
  have path: "watchlist_path None = py ''None_watchlist.json''"
    by (simp add: watchlist_path_def format_username_def py_def)
  show ?thesis
    unfolding r using n
    by (simp add: save_watchlist_def path fresh_state_def initial_state_def every_path_def Let_def)
qed

section \<open>Adding at most five tickers\<close>





section \<open>The watchlist invariant\<close>

lemma add_loop_ok:
  "watchlist_ok wl \<Longrightarrow> watchlist_ok (fst (add_loop v ts wl bad))"
  by (induction ts arbitrary: wl bad) (auto simp add: watchlist_ok_def)

lemma add_ok:
  assumes "watchlist_ok (watchlist s)"
  shows "watchlist_ok (watchlist (snd (add_to_watchlist_from_entry ops v text s)))"
proof (cases "length (parse_tickers ops text) \<le> 5")
  case True
  have "watchlist_ok (fst (add_loop v (parse_tickers ops text) (watchlist s) []))"
    by (rule add_loop_ok [OF assms])
  then show ?thesis
    unfolding add_state [OF True] by (simp add: save_keeps_memory)
next
  case False
  then show ?thesis
    using assms by (simp add: add_to_watchlist_from_entry_def)
qed

lemma remove_ok:
  assumes "watchlist_ok (watchlist s)"
  shows "watchlist_ok (watchlist (snd (remove_from_watchlist stock s)))"
proof (cases "stock \<in> set (watchlist s)")
  case True
  have "watchlist_ok (remove1 stock (watchlist s))"
    using assms True by (auto simp add: watchlist_ok_def length_remove1)
  then show ?thesis
    using True by (simp add: remove_from_watchlist_def save_keeps_memory)
next
  case False
  then show ?thesis using assms by (simp add: remove_from_watchlist_def)
qed

lemma apply_event_ok:
  "watchlist_ok (watchlist s) \<Longrightarrow> watchlist_ok (watchlist (apply_event ops s e))"
  by (cases e) (simp_all add: add_ok remove_ok)

lemma run_events_ok:
  "watchlist_ok (watchlist s) \<Longrightarrow> watchlist_ok (watchlist (run_events ops evs s))"
  unfolding run_events_def
  by (induction evs arbitrary: s) (simp_all add: apply_event_ok)

text \<open>
  C7. Starting from the state after start-up, whose watchlist is empty, after any sequence
  of add and remove operations the watchlist has no duplicate ticker and at most 25
  entries. An add operation may append several tickers; each append is guarded by the
  membership and the size test on the list as it is at that moment.
\<close>

theorem reachable_watchlist_distinct_and_bounded:
  "distinct (watchlist (run_events ops evs (initial_state users_on_disk files opens)))
   \<and> length (watchlist (run_events ops evs (initial_state users_on_disk files opens))) \<le> 25"
proof -
  have "watchlist_ok (watchlist (initial_state users_on_disk files opens))"
    by (simp add: initial_state_def watchlist_ok_def)
  then have "watchlist_ok (watchlist (run_events ops evs (initial_state users_on_disk files opens)))"
    by (rule run_events_ok)
  then show ?thesis by (simp add: watchlist_ok_def)
qed

section \<open>Registration\<close>

text \<open>
  C3. \<open>Auth.register\<close> returns False exactly when the username is a key of the stored
  dictionary (keys are compared as strings, so case matters). Then the state, and with it
  the stored password, is unchanged and the login page shows "Username already taken.".
  Otherwise the password is stored as given under the username and \<open>users.json\<close> is
  written. A second registration of the same username always fails and changes nothing.
\<close>

theorem register_fails_iff_taken:
  "(fst (Auth_register username pw s) = False \<longleftrightarrow> username \<in> dom (users_json s))
   \<and> (username \<in> dom (users_json s) \<longrightarrow>
        snd (Auth_register username pw s) = s
        \<and> login_error_label (LoginPage_register username pw s) = py ''Username already taken.'')
   \<and> (username \<notin> dom (users_json s) \<longrightarrow>
        snd (Auth_register username pw s)
          = s\<lparr>users_json := (users_json s)(username \<mapsto> \<lparr>password = pw\<rparr>),
              disk_writes := disk_writes s @ [py ''users.json'']\<rparr>)
   \<and> fst (Auth_register username pw2 (snd (Auth_register username pw s))) = False
   \<and> snd (Auth_register username pw2 (snd (Auth_register username pw s)))
        = snd (Auth_register username pw s)"
  by (auto simp add: Auth_register_def LoginPage_register_def load_users_def save_users_def Let_def)

lemma bob_store_eq:
  "bob_store = \<lparr>watchlist = [], current_user = None,
      users_json = [py ''bob'' \<mapsto> \<lparr>password = py ''pw1''\<rparr>], watchlist_files = Map.empty,
      can_open_w = every_path,
      disk_writes = [py ''users.json'', py ''users.json''],
      login_error_label = [], home_error_label = []\<rparr>"
  by (simp add: bob_store_def fresh_state_def Auth_register_def initial_state_def
        load_users_def save_users_def)

lemma bob_names: "py ''Bob'' \<noteq> py ''bob''" "py ''nobody'' \<noteq> py ''bob''"
  "py ''wrong'' \<noteq> py ''pw1''" "py ''pw1'' \<noteq> py ''wrong''"
  by (simp_all add: py_def)

theorem register_fails_iff_taken_witness:
  "py ''bob'' \<in> dom (users_json bob_store)
   \<and> fst (Auth_register (py ''bob'') (py ''pw2'') bob_store) = False
   \<and> snd (Auth_register (py ''bob'') (py ''pw2'') bob_store) = bob_store
   \<and> map_option password
        (users_json (snd (Auth_register (py ''bob'') (py ''pw2'') bob_store)) (py ''bob''))
       = Some (py ''pw1'')
   \<and> py ''Bob'' \<notin> dom (users_json bob_store)
   \<and> fst (Auth_register (py ''Bob'') (py ''pw2'') bob_store) = True
   \<and> map_option password
        (users_json (snd (Auth_register (py ''Bob'') (py ''pw2'') bob_store)) (py ''Bob''))
       = Some (py ''pw2'')
   \<and> disk_writes (snd (Auth_register (py ''Bob'') (py ''pw2'') bob_store))
       = [py ''users.json'', py ''users.json'', py ''users.json'']"
proof -
  have taken: "py ''bob'' \<in> dom (users_json bob_store)" by (simp add: bob_store_eq)
  have free: "py ''Bob'' \<notin> dom (users_json bob_store)"
    by (simp add: bob_store_eq bob_names)
  from register_fails_iff_taken [of "py ''bob''" "py ''pw2''" bob_store "py ''pw3''"]
       register_fails_iff_taken [of "py ''Bob''" "py ''pw2''" bob_store "py ''pw3''"]
       taken free
  show ?thesis by (simp add: bob_store_eq bob_names)
qed

section \<open>Login\<close>

text \<open>
  C4. \<open>Auth.login\<close> returns True exactly when the username is stored and its stored
  password equals the given one. Any two failing runs, whatever the cause, return the
  same value, leave their state as it was except for the login page's label, and set
  that label to the same message.
\<close>

theorem login_succeeds_iff_match_and_failures_alike:
  "(fst (Auth_login username pw s)
      \<longleftrightarrow> (\<exists>r. users_json s username = Some r \<and> password r = pw))
   \<and> (\<not> fst (Auth_login u1 p1 s1) \<and> \<not> fst (Auth_login u2 p2 s2) \<longrightarrow>
        fst (Auth_login u1 p1 s1) = fst (Auth_login u2 p2 s2)
        \<and> login_error_label (LoginPage_login u1 p1 s1) = py ''Invalid username or password.''
        \<and> login_error_label (LoginPage_login u2 p2 s2) = py ''Invalid username or password.''
        \<and> LoginPage_login u1 p1 s1
            = s1\<lparr>login_error_label := py ''Invalid username or password.''\<rparr>
        \<and> LoginPage_login u2 p2 s2
            = s2\<lparr>login_error_label := py ''Invalid username or password.''\<rparr>)"
  by (auto simp add: Auth_login_def LoginPage_login_def load_users_def Let_def
           split: option.splits if_splits)

theorem login_succeeds_iff_match_and_failures_alike_witness:
  "\<not> fst (Auth_login (py ''bob'') (py ''wrong'') bob_store)
   \<and> \<not> fst (Auth_login (py ''nobody'') (py ''x'') bob_store)
   \<and> fst (Auth_login (py ''bob'') (py ''pw1'') bob_store)
   \<and> LoginPage_login (py ''bob'') (py ''wrong'') bob_store
       = LoginPage_login (py ''nobody'') (py ''x'') bob_store
   \<and> login_error_label (LoginPage_login (py ''bob'') (py ''wrong'') bob_store)
       = py ''Invalid username or password.''"
proof -
  have f1: "\<not> fst (Auth_login (py ''bob'') (py ''wrong'') bob_store)"
    by (simp add: bob_store_eq Auth_login_def load_users_def bob_names)
  have f2: "\<not> fst (Auth_login (py ''nobody'') (py ''x'') bob_store)"
    by (simp add: bob_store_eq Auth_login_def load_users_def bob_names)
  have ok: "fst (Auth_login (py ''bob'') (py ''pw1'') bob_store)"
    by (simp add: bob_store_eq Auth_login_def load_users_def)
  from login_succeeds_iff_match_and_failures_alike
         [of "py ''bob''" "py ''wrong''" bob_store "py ''bob''" "py ''wrong''" bob_store
             "py ''nobody''" "py ''x''" bob_store]
       f1 f2 ok
  show ?thesis by simp
qed

section \<open>Moving averages of period 1\<close>

lemma window_one: "i < length xs \<Longrightarrow> drop (Suc i - 1) (take (Suc i) xs) = [xs ! i]"
  by (simp add: take_Suc_conv_app_nth)

lemma rolling_mean_one: "rolling_mean 1 1 (map Num xs) = map Num xs"
proof (rule nth_equalityI)
  show "length (rolling_mean 1 1 (map Num xs)) = length (map Num xs)"
    by (simp add: rolling_mean_def)
next
  fix i assume "i < length (rolling_mean 1 1 (map Num xs))"
  then have i: "i < length xs" by (simp add: rolling_mean_def)
  then have "drop (Suc i - 1) (take (Suc i) (map Num xs)) = [Num (xs ! i)]"
    using window_one [of i "map Num xs"] by simp
  then show "rolling_mean 1 1 (map Num xs) ! i = map Num xs ! i"
    using i by (simp add: rolling_mean_def window_mean_def finite_values_def)
qed

lemma ewm_from_alpha_one: "ewm_from 1 prev xs = xs"
  by (induction xs arbitrary: prev) simp_all

text \<open>
  C8. With period 1 the SMA column and the EMA column of \<open>plot_data\<close> are the close
  prices themselves, at every row.
\<close>

theorem sma_ema_period_one_identity:
  "plot_data_sma s 1 = map Num s \<and> plot_data_ema s 1 = map Num s"
proof
  have "plot_data_sma s 1 = rolling_mean 1 1 (map Num s)"
    unfolding plot_data_sma_def by simp
  then show "plot_data_sma s 1 = map Num s"
    by (simp only: rolling_mean_one)
next
  have "ewm_mean 1 s = map Num s"
    by (cases s) (simp_all add: ewm_mean_def ewm_from_alpha_one)
  then show "plot_data_ema s 1 = map Num s"
    by (simp add: plot_data_ema_def)
qed

section \<open>Saving and loading the watchlist\<close>

text \<open>
  C9, as the code has it. When the watchlist path opens for writing, saving raises
  nothing and stores the list in the file, and a later load under the same username
  gives back the saved list, so the same set of tickers, whatever the in-memory list has
  become in between; and saving what was loaded from a file leaves every file as it is.
  When the path does not open, saving raises and stores nothing. Loading takes the list
  from the file when there is one and the empty list when there is none.
\<close>

theorem save_then_load_roundtrip:
  "(can_open_w s (watchlist_path u) \<longrightarrow>
       fst (save_watchlist u s) = None
     \<and> watchlist_files (snd (save_watchlist u s)) (watchlist_path u) = Some (watchlist s)
     \<and> watchlist (load_watchlist u ((snd (save_watchlist u s))\<lparr>watchlist := other\<rparr>))
         = watchlist s
     \<and> set (watchlist (load_watchlist u ((snd (save_watchlist u s))\<lparr>watchlist := other\<rparr>)))
         = set (watchlist s)
     \<and> (\<forall>content. watchlist_files s (watchlist_path u) = Some content \<longrightarrow>
           watchlist_files (snd (save_watchlist u (load_watchlist u s))) = watchlist_files s))
   \<and> (\<not> can_open_w s (watchlist_path u) \<longrightarrow>
       fst (save_watchlist u s) = Some OSError \<and> snd (save_watchlist u s) = s)
   \<and> (\<forall>content. watchlist_files s (watchlist_path u) = Some content \<longrightarrow>
         watchlist (load_watchlist u s) = content)
   \<and> (watchlist_files s (watchlist_path u) = None \<longrightarrow> watchlist (load_watchlist u s) = [])"
proof -
  have a: "can_open_w s (watchlist_path u) \<longrightarrow>
       fst (save_watchlist u s) = None
     \<and> watchlist_files (snd (save_watchlist u s)) (watchlist_path u) = Some (watchlist s)
     \<and> watchlist (load_watchlist u ((snd (save_watchlist u s))\<lparr>watchlist := other\<rparr>))
         = watchlist s
     \<and> set (watchlist (load_watchlist u ((snd (save_watchlist u s))\<lparr>watchlist := other\<rparr>)))
         = set (watchlist s)"
    by (simp add: save_watchlist_def load_watchlist_def Let_def)
  have b: "can_open_w s (watchlist_path u) \<longrightarrow>
       (\<forall>content. watchlist_files s (watchlist_path u) = Some content \<longrightarrow>
           watchlist_files (snd (save_watchlist u (load_watchlist u s))) = watchlist_files s)"
    by (auto simp add: save_watchlist_def load_watchlist_def Let_def map_upd_triv)
  have c: "\<not> can_open_w s (watchlist_path u) \<longrightarrow>
       fst (save_watchlist u s) = Some OSError \<and> snd (save_watchlist u s) = s"
    by (simp add: save_watchlist_def Let_def)
  have d: "\<forall>content. watchlist_files s (watchlist_path u) = Some content \<longrightarrow>
         watchlist (load_watchlist u s) = content"
    by (simp add: load_watchlist_def)
  have e: "watchlist_files s (watchlist_path u) = None \<longrightarrow> watchlist (load_watchlist u s) = []"
    by (simp add: load_watchlist_def)
  from a b c d e show ?thesis by blast
qed

lemma bob_path: "watchlist_path (Some (py ''bob'')) = py ''bob_watchlist.json''"
  by (simp add: watchlist_path_def format_username_def py_def)

theorem save_then_load_roundtrip_witness:
  "can_open_w (fresh_state\<lparr>watchlist := [py ''MSFT'', py ''AAPL'']\<rparr>)
     (watchlist_path (Some (py ''bob'')))
   \<and> watchlist_files fresh_state (watchlist_path (Some (py ''bob''))) = None
   \<and> watchlist (load_watchlist (Some (py ''bob'')) fresh_state) = []
   \<and> fst (save_watchlist (Some (py ''bob''))
            (fresh_state\<lparr>watchlist := [py ''MSFT'', py ''AAPL'']\<rparr>)) = None
   \<and> watchlist (load_watchlist (Some (py ''bob''))
        ((snd (save_watchlist (Some (py ''bob''))
                 (fresh_state\<lparr>watchlist := [py ''MSFT'', py ''AAPL'']\<rparr>)))\<lparr>watchlist := []\<rparr>))
       = [py ''MSFT'', py ''AAPL'']
   \<and> \<not> can_open_w subdir_user_state (watchlist_path (Some (py ''a/b'')))
   \<and> snd (save_watchlist (Some (py ''a/b'')) subdir_user_state) = subdir_user_state"
proof -
  have opens: "can_open_w (fresh_state\<lparr>watchlist := [py ''MSFT'', py ''AAPL'']\<rparr>)
                 (watchlist_path (Some (py ''bob'')))"
    by (simp add: fresh_state_def initial_state_def every_path_def)
  have absent: "watchlist_files fresh_state (watchlist_path (Some (py ''bob''))) = None"
    by (simp add: fresh_state_def initial_state_def)
  have closed: "\<not> can_open_w subdir_user_state (watchlist_path (Some (py ''a/b'')))"
    by (simp add: subdir_user_state_def initial_state_def no_subdirectories_def
          watchlist_path_def format_username_def py_def)
  from save_then_load_roundtrip [of "fresh_state\<lparr>watchlist := [py ''MSFT'', py ''AAPL'']\<rparr>"
                                   "Some (py ''bob'')" "[]"]
       save_then_load_roundtrip [of fresh_state "Some (py ''bob'')" "[]"]
       save_then_load_roundtrip [of subdir_user_state "Some (py ''a/b'')" "[]"]
       opens absent closed
  show ?thesis by simp
qed

text \<open>
  For the username a/b in a directory without subdirectories, saving the watchlist AAPL
  raises and stores nothing, and loading afterwards gives the empty watchlist.
\<close>

theorem save_fails_for_path_separator:
  "fst (save_watchlist (Some (py ''a/b'')) subdir_user_state) = Some OSError
   \<and> watchlist subdir_user_state = [py ''AAPL'']
   \<and> watchlist (load_watchlist (Some (py ''a/b''))
        (snd (save_watchlist (Some (py ''a/b'')) subdir_user_state))) = []
   \<and> set (watchlist (load_watchlist (Some (py ''a/b''))
        (snd (save_watchlist (Some (py ''a/b'')) subdir_user_state))))
       \<noteq> set (watchlist subdir_user_state)"
  by (simp add: save_watchlist_def load_watchlist_def subdir_user_state_def initial_state_def
        no_subdirectories_def watchlist_path_def format_username_def py_def)

section \<open>Removing an absent ticker\<close>

text \<open>
  C10. Removing a ticker that is not in the watchlist returns the state as it was: the
  watchlist is unchanged, no file is written, and nothing is raised (\<open>list.remove\<close> is
  not reached).
\<close>

theorem remove_absent_is_noop:
  assumes "stock \<notin> set (watchlist s)"
  shows "remove_from_watchlist stock s = (None, s)
         \<and> fst (remove_from_watchlist stock s) = None
         \<and> snd (remove_from_watchlist stock s) = s
         \<and> watchlist (snd (remove_from_watchlist stock s)) = watchlist s
         \<and> watchlist_files (snd (remove_from_watchlist stock s)) = watchlist_files s
         \<and> disk_writes (snd (remove_from_watchlist stock s)) = disk_writes s"
  using assms by (simp add: remove_from_watchlist_def)

theorem remove_absent_is_noop_witness:
  "py ''MSFT'' \<notin> set (watchlist (fresh_state\<lparr>watchlist := [py ''AAPL'']\<rparr>))
   \<and> remove_from_watchlist (py ''MSFT'') (fresh_state\<lparr>watchlist := [py ''AAPL'']\<rparr>)
       = (None, fresh_state\<lparr>watchlist := [py ''AAPL'']\<rparr>)
   \<and> watchlist (snd (remove_from_watchlist (py ''MSFT'')
        (fresh_state\<lparr>watchlist := [py ''AAPL'']\<rparr>))) = [py ''AAPL'']"
proof -
  have absent: "py ''MSFT'' \<notin> set (watchlist (fresh_state\<lparr>watchlist := [py ''AAPL'']\<rparr>))"
    by (simp add: py_def)
  from remove_absent_is_noop [OF absent] absent show ?thesis by simp
qed

section \<open>Relative strength index\<close>

lemma finite_values_nonneg:
  "\<forall>x \<in> set w. nonneg_cell x \<Longrightarrow> \<forall>r \<in> set (finite_values w). 0 \<le> r"
  by (auto simp add: finite_values_def nonneg_cell_def split: pyfloat.splits)

lemma window_mean_nonneg:
  assumes "\<forall>x \<in> set w. nonneg_cell x"
  shows "window_mean m w = NaN \<or> (\<exists>r. window_mean m w = Num r \<and> 0 \<le> r)"
proof -
  have "0 \<le> sum_list (finite_values w)"
    using finite_values_nonneg [OF assms] by (simp add: sum_list_nonneg)
  then show ?thesis
    by (simp add: window_mean_def Let_def)
qed

lemma rolling_mean_nonneg:
  assumes "\<forall>x \<in> set xs. nonneg_cell x" and "i < length xs"
  shows "rolling_mean w m xs ! i = NaN \<or> (\<exists>r. rolling_mean w m xs ! i = Num r \<and> 0 \<le> r)"
proof -
  have "\<forall>x \<in> set (drop (Suc i - w) (take (Suc i) xs)). nonneg_cell x"
    using assms(1) by (meson in_set_dropD in_set_takeD)
  then show ?thesis
    using assms(2) window_mean_nonneg [of "drop (Suc i - w) (take (Suc i) xs)" m]
    by (simp add: rolling_mean_def)
qed

lemma rsi_gain_nonneg: "\<forall>x \<in> set (rsi_gain series). nonneg_cell x"
  by (auto simp add: rsi_gain_def diff_def nonneg_cell_def)

lemma rsi_loss_nonneg: "\<forall>x \<in> set (rsi_loss series). nonneg_cell x"
  by (auto simp add: rsi_loss_def diff_def nonneg_cell_def)

lemma rsi_cell_cases:
  assumes "g = NaN \<or> (\<exists>r. g = Num r \<and> 0 \<le> r)" and "l = NaN \<or> (\<exists>r. l = Num r \<and> 0 \<le> r)"
  shows "rsi_cell g l = NaN \<or> (\<exists>r. rsi_cell g l = Num r \<and> 0 \<le> r \<and> r \<le> 100)"
proof -
  consider "g = NaN" | "l = NaN" | a b where "g = Num a" "l = Num b" "0 \<le> a" "0 \<le> b"
    using assms by blast
  then show ?thesis
  proof cases
    case 1 then show ?thesis by (simp add: rsi_cell_def fl_sub_def)
  next
    case 2 then show ?thesis by (cases g) (simp_all add: rsi_cell_def fl_sub_def)
  next
    case 3
    show ?thesis
    proof (cases "b = 0")
      case True
      then show ?thesis using 3 by (simp add: rsi_cell_def fl_sub_def)
    next
      case False
      then have b: "0 < b" using 3 by simp
      define t where "t = a / b"
      have q: "0 \<le> t" using 3 b by (simp add: t_def)
      then have pos: "0 < 1 + t" by linarith
      have le: "100 / (1 + t) \<le> 100"
        using q pos by (simp add: pos_divide_le_eq)
      have ge: "0 \<le> 100 / (1 + t)" using pos by simp
      have "rsi_cell g l = Num (100 - 100 / (1 + t))"
        using 3 False pos by (simp add: rsi_cell_def fl_sub_def t_def)
      then show ?thesis using le ge by simp
    qed
  qed
qed

lemma rsi_lengths:
  "length (rsi_avg_gain series period) = length series"
  "length (rsi_avg_loss series period) = length series"
  "length (calculate_rsi series period) = length series"
  by (simp_all add: calculate_rsi_def rsi_rs_def rsi_avg_gain_def rsi_avg_loss_def rolling_mean_def
        rsi_gain_def rsi_loss_def diff_def)

lemma calculate_rsi_nth:
  assumes "i < length series"
  shows "calculate_rsi series period ! i
           = rsi_cell (rsi_avg_gain series period ! i) (rsi_avg_loss series period ! i)"
  using assms by (simp add: calculate_rsi_def rsi_rs_def rsi_lengths rsi_cell_def)

text \<open>
  C5, as the code has it. At every row the RSI is NaN or a finite number in [0, 100],
  never an infinity. Where the rolling average loss is 0 and the rolling average gain is
  positive, the RSI is 100: RS is infinite and 100 / (1 + RS) is 0. Where both averages
  are 0, RS is 0 / 0 and the RSI is NaN; \<open>calculate_rsi\<close> has no step that replaces it.
\<close>

theorem rsi_bounded_and_100_when_only_gains:
  assumes "i < length series"
  shows "(\<forall>r. calculate_rsi series period ! i = Num r \<longrightarrow> 0 \<le> r \<and> r \<le> 100)
    \<and> calculate_rsi series period ! i \<noteq> PInf
    \<and> calculate_rsi series period ! i \<noteq> NInf
    \<and> (rsi_avg_loss series period ! i = Num 0
         \<and> (\<exists>g. rsi_avg_gain series period ! i = Num g \<and> 0 < g)
        \<longrightarrow> calculate_rsi series period ! i = Num 100)
    \<and> (rsi_avg_loss series period ! i = Num 0 \<and> rsi_avg_gain series period ! i = Num 0
        \<longrightarrow> calculate_rsi series period ! i = NaN)"
proof -
  have ig: "i < length (rsi_gain series)" and il: "i < length (rsi_loss series)"
    using assms by (simp_all add: rsi_gain_def rsi_loss_def diff_def)
  have g: "rsi_avg_gain series period ! i = NaN
           \<or> (\<exists>r. rsi_avg_gain series period ! i = Num r \<and> 0 \<le> r)"
    unfolding rsi_avg_gain_def using rolling_mean_nonneg [OF rsi_gain_nonneg ig] by blast
  have l: "rsi_avg_loss series period ! i = NaN
           \<or> (\<exists>r. rsi_avg_loss series period ! i = Num r \<and> 0 \<le> r)"
    unfolding rsi_avg_loss_def using rolling_mean_nonneg [OF rsi_loss_nonneg il] by blast
  have c: "calculate_rsi series period ! i = NaN
           \<or> (\<exists>r. calculate_rsi series period ! i = Num r \<and> 0 \<le> r \<and> r \<le> 100)"
    unfolding calculate_rsi_nth [OF assms] by (rule rsi_cell_cases [OF g l])
  have hundred: "rsi_avg_loss series period ! i = Num 0
         \<and> (\<exists>g. rsi_avg_gain series period ! i = Num g \<and> 0 < g)
        \<longrightarrow> calculate_rsi series period ! i = Num 100"
    unfolding calculate_rsi_nth [OF assms] by (auto simp add: rsi_cell_def fl_sub_def)
  have nan: "rsi_avg_loss series period ! i = Num 0 \<and> rsi_avg_gain series period ! i = Num 0
        \<longrightarrow> calculate_rsi series period ! i = NaN"
    unfolding calculate_rsi_nth [OF assms] by (auto simp add: rsi_cell_def fl_sub_def)
  from c hundred nan show ?thesis by auto
qed

lemmas rsi_eval = calculate_rsi_def rsi_rs_def rsi_avg_gain_def rsi_avg_loss_def rsi_gain_def
  rsi_loss_def diff_def rolling_mean_def window_mean_def finite_values_def fl_sub_def

theorem rsi_bounded_and_100_when_only_gains_witness:
  "(1::nat) < length [5, 6 :: real]
   \<and> rsi_avg_loss [5, 6] 2 ! 1 = Num 0
   \<and> rsi_avg_gain [5, 6] 2 ! 1 = Num (1 / 2)
   \<and> calculate_rsi [5, 6] 2 ! 1 = Num 100
   \<and> calculate_rsi [5, 6, 5] 2 ! 2 = Num 50"
proof -
  have len: "(1::nat) < length [5, 6 :: real]" by simp
  have len3: "(2::nat) < length [5, 6, 5 :: real]" by simp
  have l: "rsi_avg_loss [5, 6] 2 ! 1 = Num 0" by (simp add: rsi_eval)
  have g: "rsi_avg_gain [5, 6] 2 ! 1 = Num (1 / 2)" by (simp add: rsi_eval)
  have v: "calculate_rsi [5, 6, 5] 2 ! 2 = Num 50" by (simp add: rsi_eval)
  have "rsi_avg_gain [5, 6] 2 ! 1 = Num (1 / 2) \<and> (0::real) < 1 / 2"
    using g by simp
  then have ex: "\<exists>x. rsi_avg_gain [5, 6] 2 ! 1 = Num x \<and> 0 < x"
    by (rule exI)
  from rsi_bounded_and_100_when_only_gains [OF len, of 2]
  have "rsi_avg_loss [5, 6] 2 ! 1 = Num 0
         \<and> (\<exists>x. rsi_avg_gain [5, 6] 2 ! 1 = Num x \<and> 0 < x)
        \<longrightarrow> calculate_rsi [5, 6] 2 ! 1 = Num 100"
    by blast
  with l ex have h: "calculate_rsi [5, 6] 2 ! 1 = Num 100" by blast
  from len l g h v show ?thesis by blast
qed

text \<open>
  A flat window: for the closes 5, 5 and period 2 the average loss at row 1 is 0 and the
  RSI there is NaN, not 100.
\<close>

theorem rsi_flat_window_not_100:
  "rsi_avg_loss [5, 5] 2 ! 1 = Num 0 \<and> calculate_rsi [5, 5] 2 ! 1 = NaN
   \<and> calculate_rsi [5, 5] 2 ! 1 \<noteq> Num 100"
  by (simp add: rsi_eval)

section \<open>Average directional index\<close>
































lemma calculate_adx_window_zero: "calculate_adx data 0 = None"
  by (simp add: calculate_adx_def)










end
